theory Spec2Isabelle
  imports Main "HOL-Library.Word" "HOL-Library.Sublist"
begin

unbundle bit_operations_syntax

section \<open>The descriptor-handle layer of netpoll\<close>

text \<open>
  The Go package \<^verbatim>\<open>netpoll\<close> wraps a file of the operating system in a \<^verbatim>\<open>Desc\<close>.
  Its functions are short; what they do is call into the Go standard library
  (\<^verbatim>\<open>os.NewFile\<close>, \<^verbatim>\<open>(*os.File).Fd\<close>, \<^verbatim>\<open>(*os.File).Close\<close>,
  \<^verbatim>\<open>syscall.SetNonblock\<close>) and into the \<^verbatim>\<open>File\<close> method of the object they are given.
  The embedding threads an explicit \<open>world\<close> through every function: the \<^verbatim>\<open>os.File\<close>
  objects on the heap, the descriptor table of the kernel, and the list of calls made
  into the system-call layer.
\<close>

subsection \<open>Errors\<close>

text \<open>
  A Go \<^verbatim>\<open>error\<close> is an interface value; \<open>None :: error option\<close> is the nil error.
\<close>

text \<open>
  Modelled from the spec: the sentinel \<^verbatim>\<open>ErrNotFiler\<close> is declared in a file of the
  package that is not among the sources. The spec calls it a distinct sentinel condition,
  never a generic failure; it is a constructor of its own here. The other constructors
  are the errors of the Go standard library that the functions below can meet;
  \<open>RuntimeError\<close> is a \<^verbatim>\<open>runtime.Error\<close>, the value of a panic of the Go runtime.
\<close>

datatype error =
    ErrNotFiler
  | ErrInvalid
  | ErrClosed
  | Errno nat
  | SyscallError string error
  | PathError string error
  | ErrorString string
  | RuntimeError string

text \<open>\<^verbatim>\<open>EBADF\<close>, the errno of an operation on a descriptor that is not open.\<close>

definition EBADF :: nat where
  "EBADF = 9"

text \<open>
  \<^verbatim>\<open>os.NewSyscallError(syscall, err)\<close>: nil when \<^verbatim>\<open>err\<close> is nil, otherwise
  \<^verbatim>\<open>&SyscallError{syscall, err}\<close>.
\<close>

definition NewSyscallError :: "string \<Rightarrow> error option \<Rightarrow> error option" where
  "NewSyscallError name err =
     (case err of None \<Rightarrow> None | Some e \<Rightarrow> Some (SyscallError name e))"

text \<open>\<^verbatim>\<open>fmt.Errorf\<close> on a format string without verbs: an error with that message.\<close>

definition Errorf :: "string \<Rightarrow> error" where
  "Errorf msg = ErrorString msg"

subsection \<open>Event interest\<close>

text \<open>
  Modelled from the spec: the type \<^verbatim>\<open>Event\<close> and its flags are declared in a file of the
  package that is not among the sources. The spec describes an integer bit-set over the
  flags Read, Write, EdgeTriggered and OneShot, composed with bitwise OR. Each flag is
  one bit of its own here.
\<close>

type_synonym Event = "16 word"

definition EventRead :: Event where
  "EventRead = 1"

definition EventWrite :: Event where
  "EventWrite = 2"

definition EventOneShot :: Event where
  "EventOneShot = 4"

definition EventEdgeTriggered :: Event where
  "EventEdgeTriggered = 8"

subsection \<open>The world outside the package\<close>

text \<open>
  An \<^verbatim>\<open>*os.File\<close> is an address on the heap, or nil (\<open>None\<close>). The object holds the
  descriptor number (\<^verbatim>\<open>pfd.Sysfd\<close>, which \<^verbatim>\<open>Close\<close> sets to \<open>-1\<close>) and the flag
  \<^verbatim>\<open>nonblock\<close> that the runtime keeps for a file it put in non-blocking mode.
\<close>

type_synonym fileptr = "nat option"

record osfile =
  sysfd :: int
  nonblock :: bool

text \<open>The calls into the system-call layer, in the order they are made.\<close>

datatype syscall =
    SysSetNonblock int bool
  | SysClose int
  | SysDup int

text \<open>
  \<open>files\<close> is the heap of \<^verbatim>\<open>os.File\<close> objects and \<open>nfiles\<close> the next free address;
  \<open>fdtab\<close> is the descriptor table of the kernel, holding for each open descriptor
  whether \<^verbatim>\<open>O_NONBLOCK\<close> is set; \<open>fcntl_err\<close> is the errno, if any, with which the
  kernel refuses to change the mode of an open descriptor; \<open>calls\<close> is the log.
\<close>

record world =
  files :: "nat \<Rightarrow> osfile"
  nfiles :: nat
  fdtab :: "nat \<rightharpoonup> bool"
  fcntl_err :: "int \<Rightarrow> nat option"
  calls :: "syscall list"

text \<open>
  \<^verbatim>\<open>syscall.SetNonblock(fd, nonblocking)\<close>: fails with \<^verbatim>\<open>EBADF\<close> on a descriptor
  that is not open, with the errno the kernel chooses otherwise, and sets the mode of the
  descriptor when it succeeds.
\<close>

definition SetNonblock :: "int \<Rightarrow> bool \<Rightarrow> world \<Rightarrow> error option \<times> world" where
  "SetNonblock fd nb w =
     (let w1 = w\<lparr>calls := calls w @ [SysSetNonblock fd nb]\<rparr> in
      if fd < 0 then (Some (Errno EBADF), w1)
      else case fdtab w (nat fd) of
             None \<Rightarrow> (Some (Errno EBADF), w1)
           | Some _ \<Rightarrow>
               (case fcntl_err w fd of
                  Some e \<Rightarrow> (Some (Errno e), w1)
                | None \<Rightarrow> (None, w1\<lparr>fdtab := (fdtab w)(nat fd \<mapsto> nb)\<rparr>)))"

text \<open>
  \<^verbatim>\<open>os.NewFile(fd, "")\<close>: nil when \<^verbatim>\<open>int(fd)\<close> is negative, otherwise a new
  \<^verbatim>\<open>os.File\<close> around the descriptor, which it does not check to be open. The new file
  is of the non-blocking kind when the descriptor is in non-blocking mode.
\<close>

definition NewFile :: "64 word \<Rightarrow> world \<Rightarrow> fileptr \<times> world" where
  "NewFile fd w =
     (let fdi = sint fd in
      if fdi < 0 then (None, w)
      else (Some (nfiles w),
            w\<lparr>files := (files w)(nfiles w :=
                 \<lparr>sysfd = fdi, nonblock = (fdtab w (nat fdi) = Some True)\<rparr>),
              nfiles := Suc (nfiles w)\<rparr>))"

text \<open>
  \<^verbatim>\<open>int(file.Fd())\<close>: \<open>-1\<close> for a nil file (\<^verbatim>\<open>^uintptr(0)\<close> read as an int) and for a
  closed one. On an open file of the non-blocking kind, \<^verbatim>\<open>Fd\<close> first puts the
  descriptor back in blocking mode, ignoring the outcome.
\<close>

definition file_Fd :: "fileptr \<Rightarrow> world \<Rightarrow> int \<times> world" where
  "file_Fd p w =
     (case p of
        None \<Rightarrow> (-1, w)
      | Some a \<Rightarrow>
          (let f = files w a in
           if sysfd f < 0 then (-1, w)
           else if nonblock f then (sysfd f, snd (SetNonblock (sysfd f) False w))
           else (sysfd f, w)))"

text \<open>
  \<^verbatim>\<open>file.Close()\<close>: \<^verbatim>\<open>ErrInvalid\<close> on a nil file, an error on a file already
  closed; otherwise the descriptor is closed in the kernel and the file marked closed,
  whatever \<^verbatim>\<open>close(2)\<close> answers.
\<close>

definition file_Close :: "fileptr \<Rightarrow> world \<Rightarrow> error option \<times> world" where
  "file_Close p w =
     (case p of
        None \<Rightarrow> (Some ErrInvalid, w)
      | Some a \<Rightarrow>
          (let f = files w a in
           if sysfd f < 0 then (Some (PathError ''close'' ErrClosed), w)
           else
             (case fdtab w (nat (sysfd f)) of
                None \<Rightarrow> Some (PathError ''close'' (Errno EBADF))
              | Some _ \<Rightarrow> None,
              w\<lparr>files := (files w)(a := f\<lparr>sysfd := -1\<rparr>),
                fdtab := (fdtab w)(nat (sysfd f) := None),
                calls := calls w @ [SysClose (sysfd f)]\<rparr>)))"

text \<open>Observations of the world used in the statements below.\<close>

definition fd_open :: "world \<Rightarrow> int \<Rightarrow> bool" where
  "fd_open w fd = (if fd < 0 then False else fdtab w (nat fd) \<noteq> None)"

definition fd_nonblocking :: "world \<Rightarrow> int \<Rightarrow> bool" where
  "fd_nonblocking w fd = (if fd < 0 then False else fdtab w (nat fd) = Some True)"

definition file_closed :: "world \<Rightarrow> fileptr \<Rightarrow> bool" where
  "file_closed w p = (case p of None \<Rightarrow> True | Some a \<Rightarrow> sysfd (files w a) < 0)"

definition file_sysfd :: "world \<Rightarrow> fileptr \<Rightarrow> int" where
  "file_sysfd w p = (case p of None \<Rightarrow> -1 | Some a \<Rightarrow> sysfd (files w a))"

subsection \<open>Objects and the filer interface\<close>

text \<open>
  A Go function returning \<^verbatim>\<open>(*T, error)\<close> returns a pair; either component may be nil.
\<close>

type_synonym 'a result = "'a option \<times> error option"

text \<open>
  A call either returns or panics with a value. Nothing in the package recovers a
  panic, so a panic of a callee is the panic of the caller.
\<close>

datatype 'a outcome = Returns 'a | Panics error

text \<open>What a call returned, if it did.\<close>

definition returned :: "'a outcome \<Rightarrow> 'a option" where
  "returned r = (case r of Returns v \<Rightarrow> Some v | Panics _ \<Rightarrow> None)"

text \<open>
  The argument of \<^verbatim>\<open>handle\<close> is an \<^verbatim>\<open>interface{}\<close>. What \<^verbatim>\<open>handle\<close> can see of it is
  whether its dynamic type has the method \<^verbatim>\<open>File() (*os.File, error)\<close>, and, if so, what
  that method does: any function on the world that returns such a pair or panics.
  \<open>Plain\<close> is an object without the method (the nil interface among them), named by its
  type.
\<close>

datatype object =
    Plain string
  | Filer "world \<Rightarrow> ((nat result) \<times> world) outcome"

text \<open>The type assertion \<^verbatim>\<open>f, ok := x.(filer)\<close>; \<open>None\<close> is \<^verbatim>\<open>ok == false\<close>.\<close>

definition as_filer :: "object \<Rightarrow> (world \<Rightarrow> ((nat result) \<times> world) outcome) option" where
  "as_filer x = (case x of Plain _ \<Rightarrow> None | Filer f \<Rightarrow> Some f)"

subsection \<open>Desc\<close>

record Desc =
  "file" :: fileptr
  event :: Event
  desc :: int

text \<open>
  The methods have a pointer receiver: they take the \<open>Desc\<close> and return it as they
  leave it.
\<close>

definition Close :: "Desc \<Rightarrow> world \<Rightarrow> error option \<times> Desc \<times> world" where
  "Close h w = (let (err, w1) = file_Close (file h) w in (err, h, w1))"

definition Fd :: "Desc \<Rightarrow> world \<Rightarrow> int \<times> Desc \<times> world" where
  "Fd h w =
     (let (h1, w1) =
            (if desc h = -1
             then (let (n, w') = file_Fd (file h) w in (h\<lparr>desc := n\<rparr>, w'))
             else (h, w))
      in (desc h1, h1, w1))"

subsection \<open>Constructors\<close>

definition newDesc :: "fileptr \<Rightarrow> Event \<Rightarrow> world \<Rightarrow> Desc result \<times> world" where
  "newDesc f ev w =
     (let (n, w1) = file_Fd f w;
          d = \<lparr>file = f, event = ev, desc = n\<rparr>;
          (fd, d1, w2) = Fd d w1;
          (err, w3) = SetNonblock fd True w2
      in if err \<noteq> None then ((None, NewSyscallError ''setnonblock'' err), w3)
         else ((Some d1, None), w3))"

definition NewDesc :: "64 word \<Rightarrow> Event \<Rightarrow> world \<Rightarrow> Desc result \<times> world" where
  "NewDesc fd ev w =
     (let (f, w1) = NewFile fd w;
          ((d, err), w2) = newDesc f ev w1
      in if err \<noteq> None then ((None, err), snd (file_Close f w2))
         else ((d, None), w2))"

text \<open>
  \<^verbatim>\<open>newDesc\<close> and \<^verbatim>\<open>NewDesc\<close> call only the functions of \<^verbatim>\<open>os\<close> and \<^verbatim>\<open>syscall\<close>
  above, which accept a nil file. \<^verbatim>\<open>handle\<close> calls the \<^verbatim>\<open>File\<close> method of its
  argument, which may panic.
\<close>

definition handle :: "object \<Rightarrow> Event \<Rightarrow> world \<Rightarrow> (Desc result \<times> world) outcome" where
  "handle x ev w =
     (case as_filer x of
        None \<Rightarrow> Returns ((None, Some ErrNotFiler), w)
      | Some File \<Rightarrow>
          (case File w of
             Panics v \<Rightarrow> Panics v
           | Returns ((f, err), w1) \<Rightarrow>
               if err \<noteq> None then Returns ((None, err), w1)
               else
                 (let ((d, err), w2) = newDesc f ev w1 in
                  if err \<noteq> None then Returns ((None, err), snd (file_Close f w2))
                  else Returns ((d, None), w2))))"

definition Handle :: "object \<Rightarrow> Event \<Rightarrow> world \<Rightarrow> (Desc result \<times> world) outcome" where
  "Handle conn ev w =
     (case handle conn ev w of
        Panics v \<Rightarrow> Panics v
      | Returns ((d, err), w1) \<Rightarrow>
          if err \<noteq> None then Returns ((None, err), w1) else Returns ((d, None), w1))"

definition HandleListener :: "object \<Rightarrow> Event \<Rightarrow> world \<Rightarrow> (Desc result \<times> world) outcome" where
  "HandleListener ln ev w = handle ln ev w"

definition HandleRead :: "object \<Rightarrow> world \<Rightarrow> (Desc result \<times> world) outcome" where
  "HandleRead conn w = Handle conn (EventRead OR EventEdgeTriggered) w"

definition HandleReadOnce :: "object \<Rightarrow> world \<Rightarrow> (Desc result \<times> world) outcome" where
  "HandleReadOnce conn w = Handle conn (EventRead OR EventOneShot) w"

definition HandleWrite :: "object \<Rightarrow> world \<Rightarrow> (Desc result \<times> world) outcome" where
  "HandleWrite conn w = Handle conn (EventWrite OR EventEdgeTriggered) w"

definition HandleWriteOnce :: "object \<Rightarrow> world \<Rightarrow> (Desc result \<times> world) outcome" where
  "HandleWriteOnce conn w = Handle conn (EventWrite OR EventOneShot) w"

definition HandleReadWrite :: "object \<Rightarrow> world \<Rightarrow> (Desc result \<times> world) outcome" where
  "HandleReadWrite conn w = Handle conn (EventRead OR EventWrite OR EventEdgeTriggered) w"

text \<open>The shorthands that take only a connection, in the order of the source.\<close>

definition shorthand_family ::
  "(object \<Rightarrow> world \<Rightarrow> (Desc result \<times> world) outcome) list" where
  "shorthand_family =
     [HandleRead, HandleReadOnce, HandleWrite, HandleWriteOnce, HandleReadWrite]"

text \<open>The \<open>Desc\<close> a constructor returned, if it returned one.\<close>

definition returned_desc :: "(Desc result \<times> world) outcome \<Rightarrow> Desc option" where
  "returned_desc r = (case r of Returns ((d, _), _) \<Rightarrow> d | Panics _ \<Rightarrow> None)"

subsection \<open>Must\<close>


subsection \<open>The multiplexer constructor on an unsupported platform\<close>

text \<open>
  \<^verbatim>\<open>New(*Config) (EventPoll, error)\<close> of \<^verbatim>\<open>netpoll_stub.go\<close>. The types
  \<^verbatim>\<open>Config\<close> and \<^verbatim>\<open>EventPoll\<close> are declared elsewhere; the function does not look
  at them, so they are type variables.
\<close>

definition New :: "'cfg option \<Rightarrow> 'poll option \<times> error option" where
  "New cfg = (None, Some (Errorf ''poller is not supported on this operating system''))"

text \<open>The message of an error made by \<^verbatim>\<open>fmt.Errorf\<close>.\<close>

definition message :: "error \<Rightarrow> string option" where
  "message e = (case e of ErrorString s \<Rightarrow> Some s | _ \<Rightarrow> None)"

subsection \<open>Example objects\<close>

text \<open>
  A connection in the manner of \<^verbatim>\<open>net.TCPConn\<close>: \<^verbatim>\<open>File\<close> duplicates the descriptor
  \<open>src\<close> of the connection as \<open>new\<close> and wraps the duplicate in a new \<^verbatim>\<open>os.File\<close> of
  the non-blocking kind; it fails when the connection is closed. Every attempt is logged.
\<close>

definition conn_File :: "nat \<Rightarrow> nat \<Rightarrow> world \<Rightarrow> (nat result) \<times> world" where
  "conn_File src new w =
     (let w1 = w\<lparr>calls := calls w @ [SysDup (int src)]\<rparr> in
      case fdtab w src of
        None \<Rightarrow> ((None, Some (Errno EBADF)), w1)
      | Some nb \<Rightarrow>
          ((Some (nfiles w), None),
           w1\<lparr>files := (files w)(nfiles w := \<lparr>sysfd = int new, nonblock = True\<rparr>),
              nfiles := Suc (nfiles w),
              fdtab := (fdtab w)(new \<mapsto> True)\<rparr>))"

text \<open>The connection as an object: its \<^verbatim>\<open>File\<close> method always returns.\<close>

definition tcp_conn :: "nat \<Rightarrow> nat \<Rightarrow> object" where
  "tcp_conn src new = Filer (\<lambda>w. Returns (conn_File src new w))"

text \<open>
  A typed nil pointer to a connection, such as \<^verbatim>\<open>(*net.TCPConn)(nil)\<close> held in a
  \<^verbatim>\<open>net.Conn\<close>: the interface value is not nil and its type has the method, so the type
  assertion succeeds; the method is promoted from an embedded struct, and calling it
  dereferences the nil pointer, which panics before anything is done.
\<close>

definition nil_conn :: object where
  "nil_conn = Filer (\<lambda>w. Panics (RuntimeError ''invalid memory address or nil pointer dereference''))"

text \<open>A world with the descriptors 0 to 3 open, 3 being a socket in non-blocking mode.\<close>

definition world0 :: world where
  "world0 =
     \<lparr>files = (\<lambda>_. \<lparr>sysfd = -1, nonblock = False\<rparr>),
      nfiles = 0,
      fdtab = [0 \<mapsto> False, 1 \<mapsto> False, 2 \<mapsto> False, 3 \<mapsto> True],
      fcntl_err = (\<lambda>_. None),
      calls = []\<rparr>"

text \<open>
  The same world with a kernel that refuses, with \<^verbatim>\<open>EINVAL\<close>, to change the mode of any
  descriptor from 3 on.
\<close>

definition world_refusing :: world where
  "world_refusing = world0\<lparr>fcntl_err := (\<lambda>fd. if 3 \<le> fd then Some 22 else None)\<rparr>"

section \<open>Facts about the library calls and the constructors\<close>

lemma file_Fd_unset: "fst (file_Fd f w) = -1 \<Longrightarrow> file_Fd f w = (-1, w)"
  by (auto simp: file_Fd_def Let_def split: option.splits if_splits)

lemma SetNonblock_files: "files (snd (SetNonblock fd nb w)) = files w"
  by (simp add: SetNonblock_def Let_def split: option.splits)

lemma file_sysfd_files: "files w' = files w \<Longrightarrow> file_sysfd w' f = file_sysfd w f"
  by (cases f) (simp_all add: file_sysfd_def)

lemma file_Fd_result:
  assumes "file_Fd f w = (n, w2)"
  shows "files w2 = files w \<and> n = (if file_sysfd w f < 0 then -1 else file_sysfd w f)"
  using assms
  by (auto simp: file_Fd_def file_sysfd_def Let_def SetNonblock_files
           split: option.splits if_splits)

lemma Fd_fresh:
  assumes "file_Fd f w = (n, w2)"
  shows "Fd \<lparr>file = f, event = ev, desc = n\<rparr> w2 = (n, \<lparr>file = f, event = ev, desc = n\<rparr>, w2)"
proof (cases "n = -1")
  case True
  with assms have "file_Fd f w = (-1, w)" using file_Fd_unset [of f w] by simp
  with assms True have "w2 = w" by simp
  with True \<open>file_Fd f w = (-1, w)\<close> show ?thesis by (simp add: Fd_def)
next
  case False
  then show ?thesis by (simp add: Fd_def)
qed

lemma newDesc_unfold:
  assumes "file_Fd f w = (n, w2)"
  shows "newDesc f ev w =
     (case SetNonblock n True w2 of
        (None, w3) \<Rightarrow> ((Some \<lparr>file = f, event = ev, desc = n\<rparr>, None), w3)
      | (Some e, w3) \<Rightarrow> ((None, Some (SyscallError ''setnonblock'' e)), w3))"
  using assms Fd_fresh [OF assms, of ev]
  by (simp add: newDesc_def NewSyscallError_def split: prod.splits option.splits)

lemma SetNonblock_ok:
  assumes "SetNonblock fd nb w = (None, w')"
  shows "0 \<le> fd \<and> fdtab w' = (fdtab w)(nat fd \<mapsto> nb)
       \<and> files w' = files w \<and> calls w' = calls w @ [SysSetNonblock fd nb]"
  using assms by (auto simp: SetNonblock_def Let_def split: if_splits option.splits)

lemma SetNonblock_fail:
  assumes "SetNonblock fd nb w = (Some e, w')"
  shows "w' = w\<lparr>calls := calls w @ [SysSetNonblock fd nb]\<rparr>"
  using assms by (auto simp: SetNonblock_def Let_def split: if_splits option.splits)

lemma file_Close_effect:
  "file_closed (snd (file_Close f w)) f
   \<and> \<not> fd_open (snd (file_Close f w)) (if file_sysfd w f < 0 then -1 else file_sysfd w f)
   \<and> calls (snd (file_Close f w)) =
       calls w @ (if file_sysfd w f < 0 then [] else [SysClose (file_sysfd w f)])"
  by (simp add: file_Close_def file_closed_def fd_open_def file_sysfd_def Let_def
           split: option.splits)

lemma newDesc_failure:
  assumes "newDesc f ev w = ((d, Some e), w')"
  shows "d = None \<and> (\<exists>en. e = SyscallError ''setnonblock'' en)
       \<and> files w' = files w
       \<and> calls w' \<noteq> []
       \<and> last (calls w') = SysSetNonblock (if file_sysfd w f < 0 then -1 else file_sysfd w f) True"
proof -
  obtain n w2 where fd: "file_Fd f w = (n, w2)" by (cases "file_Fd f w")
  obtain r w3 where nb: "SetNonblock n True w2 = (r, w3)" by (cases "SetNonblock n True w2")
  from assms newDesc_unfold [OF fd, of ev] nb obtain en where
    r: "r = Some en" and e: "e = SyscallError ''setnonblock'' en" and d: "d = None" and w: "w' = w3"
    by (cases r) auto
  from nb r have "w3 = w2\<lparr>calls := calls w2 @ [SysSetNonblock n True]\<rparr>"
    by (simp add: SetNonblock_fail)
  with file_Fd_result [OF fd] e d w show ?thesis by simp
qed

lemma newDesc_success:
  assumes "newDesc f ev w = ((Some d, err), w')"
  shows "err = None \<and> file d = f \<and> event d = ev \<and> desc d = file_sysfd w f
       \<and> 0 \<le> desc d \<and> file_sysfd w' f = desc d
       \<and> fd_nonblocking w' (desc d)
       \<and> calls w' \<noteq> [] \<and> last (calls w') = SysSetNonblock (desc d) True"
proof -
  obtain n w2 where fd: "file_Fd f w = (n, w2)" by (cases "file_Fd f w")
  obtain r w3 where nb: "SetNonblock n True w2 = (r, w3)" by (cases "SetNonblock n True w2")
  from assms newDesc_unfold [OF fd, of ev] nb have
    r: "r = None" and d: "d = \<lparr>file = f, event = ev, desc = n\<rparr>" and w: "w' = w3"
    and err: "err = None"
    by (cases r; auto)+
  from nb r have ok: "0 \<le> n" "fdtab w3 = (fdtab w2)(nat n \<mapsto> True)" "files w3 = files w2"
    "calls w3 = calls w2 @ [SysSetNonblock n True]"
    using SetNonblock_ok [of n True w2 w3] by simp_all
  from file_Fd_result [OF fd] ok(1) have n: "n = file_sysfd w f" "files w2 = files w"
    by (auto split: if_splits)
  from n ok have "file_sysfd w3 f = n" by (simp add: file_sysfd_def split: option.splits)
  with ok n d w err show ?thesis by (simp add: fd_nonblocking_def)
qed

lemma handle_success:
  assumes "handle x ev w = Returns ((Some d, err), w')"
  shows "\<exists>File f w1. as_filer x = Some File \<and> File w = Returns ((f, None), w1)
           \<and> newDesc f ev w1 = ((Some d, err), w')"
  using assms
  by (auto simp: handle_def Let_def
           split: option.splits prod.splits if_splits outcome.splits)

lemma Handle_success:
  assumes "Handle x ev w = Returns ((Some d, err), w')"
  shows "handle x ev w = Returns ((Some d, err), w')"
  using assms
  by (auto simp: Handle_def Let_def
           split: option.splits prod.splits if_splits outcome.splits)

lemma NewDesc_success:
  assumes "NewDesc fd ev w = ((Some d, err), w')"
  shows "newDesc (fst (NewFile fd w)) ev (snd (NewFile fd w)) = ((Some d, err), w')"
  using assms
  by (auto simp: NewDesc_def Let_def split: option.splits prod.splits if_splits)

lemma Fd_again:
  assumes "Fd h w = (v, h', w')"
  shows "Fd h' w' = (v, h', w')"
proof (cases "desc h = -1")
  case False
  with assms show ?thesis by (auto simp: Fd_def)
next
  case True
  obtain n w2 where fd: "file_Fd (file h) w = (n, w2)" by (cases "file_Fd (file h) w")
  with True assms have r: "v = n" "h' = h\<lparr>desc := n\<rparr>" "w' = w2"
    by (auto simp: Fd_def)
  show ?thesis
  proof (cases "n = -1")
    case True
    with fd file_Fd_unset [of "file h" w] have "file_Fd (file h) w = (-1, w)" by simp
    with fd True r show ?thesis by (simp add: Fd_def)
  next
    case False
    with r show ?thesis by (simp add: Fd_def)
  qed
qed







text \<open>The definitions a concrete run unfolds.\<close>

lemmas ev_defs = world_refusing_def world0_def conn_File_def file_Fd_def SetNonblock_def
  file_Close_def Let_def EBADF_def as_filer_def NewFile_def fd_open_def file_closed_def
  tcp_conn_def nil_conn_def returned_def returned_desc_def

section \<open>Properties\<close>

text \<open>
  C1. When the file has been extracted (by the \<^verbatim>\<open>File\<close> method for \<^verbatim>\<open>handle\<close>, by
  \<^verbatim>\<open>os.NewFile\<close> for \<^verbatim>\<open>NewDesc\<close>) and \<^verbatim>\<open>syscall.SetNonblock\<close> then fails on its
  descriptor with \<open>e\<close>, the constructor returns a nil \<open>Desc\<close> and the error
  \<^verbatim>\<open>SyscallError{"setnonblock", e}\<close>, and the world it returns is the one in which the
  file has been closed after the failed call: the file is closed, its descriptor is not
  open, and the close is the last call made.
\<close>

theorem setnonblock_failure_rolls_back:
  assumes fd: "file_Fd f w1 = (n, w2)"
      and nb: "SetNonblock n True w2 = (Some e, w3)"
  shows "(as_filer x = Some File \<and> File w = Returns ((f, None), w1) \<longrightarrow>
            handle x ev w =
              Returns ((None, Some (SyscallError ''setnonblock'' e)), snd (file_Close f w3)))
       \<and> (NewFile rawfd w = (f, w1) \<longrightarrow>
            NewDesc rawfd ev w =
              ((None, Some (SyscallError ''setnonblock'' e)), snd (file_Close f w3)))
       \<and> file_closed (snd (file_Close f w3)) f
       \<and> \<not> fd_open (snd (file_Close f w3)) n
       \<and> calls (snd (file_Close f w3)) =
           calls w2 @ SysSetNonblock n True # (if n < 0 then [] else [SysClose n])"
proof -
  have nd: "newDesc f ev w1 = ((None, Some (SyscallError ''setnonblock'' e)), w3)"
    using newDesc_unfold [OF fd, of ev] nb by simp
  have w3: "w3 = w2\<lparr>calls := calls w2 @ [SysSetNonblock n True]\<rparr>"
    using nb by (rule SetNonblock_fail)
  have "files w3 = files w1"
    using file_Fd_result [OF fd] w3 by simp
  then have "file_sysfd w3 f = file_sysfd w1 f"
    by (rule file_sysfd_files)
  then have n: "n = (if file_sysfd w3 f < 0 then -1 else file_sysfd w3 f)"
    using file_Fd_result [OF fd] by simp
  have h: "as_filer x = Some File \<and> File w = Returns ((f, None), w1) \<longrightarrow>
      handle x ev w =
        Returns ((None, Some (SyscallError ''setnonblock'' e)), snd (file_Close f w3))"
    using nd by (simp add: handle_def)
  have r: "NewFile rawfd w = (f, w1) \<longrightarrow>
      NewDesc rawfd ev w = ((None, Some (SyscallError ''setnonblock'' e)), snd (file_Close f w3))"
    using nd by (simp add: NewDesc_def)
  have cw3: "calls w3 = calls w2 @ [SysSetNonblock n True]"
    using w3 by simp
  have c: "calls (snd (file_Close f w3)) =
      calls w2 @ SysSetNonblock n True # (if n < 0 then [] else [SysClose n])"
  proof (cases "file_sysfd w3 f < 0")
    case True
    with n have "n = -1" by simp
    with True cw3 file_Close_effect [of f w3] show ?thesis by simp
  next
    case False
    with n have "n = file_sysfd w3 f" by simp
    with False cw3 file_Close_effect [of f w3] show ?thesis by simp
  qed
  have o: "\<not> fd_open (snd (file_Close f w3)) n"
    using file_Close_effect [of f w3] n by metis
  from h r c o file_Close_effect [of f w3] show ?thesis by blast
qed

theorem setnonblock_failure_rolls_back_witness:
  "map_option fst (returned (handle (tcp_conn 3 4) EventRead world_refusing)) =
     Some (None, Some (SyscallError ''setnonblock'' (Errno 22)))
   \<and> map_option (\<lambda>r. calls (snd r)) (returned (handle (tcp_conn 3 4) EventRead world_refusing)) =
       Some [SysDup 3, SysSetNonblock 4 False, SysSetNonblock 4 True, SysClose 4]
   \<and> map_option (\<lambda>r. file_closed (snd r) (Some 0))
         (returned (handle (tcp_conn 3 4) EventRead world_refusing)) = Some True
   \<and> map_option (\<lambda>r. fd_open (snd r) 4)
         (returned (handle (tcp_conn 3 4) EventRead world_refusing)) = Some False
   \<and> fst (NewDesc 3 EventRead world_refusing) =
       (None, Some (SyscallError ''setnonblock'' (Errno 22)))
   \<and> calls (snd (NewDesc 3 EventRead world_refusing)) =
       [SysSetNonblock 3 False, SysSetNonblock 3 True, SysClose 3]
   \<and> \<not> fd_open (snd (NewDesc 3 EventRead world_refusing)) 3"
proof -
  define w1 where "w1 = snd (conn_File 3 4 world_refusing)"
  define w2 where "w2 = snd (file_Fd (Some 0) w1)"
  define w3 where "w3 = snd (SetNonblock 4 True w2)"
  have a: "as_filer (tcp_conn 3 4) = Some (\<lambda>w. Returns (conn_File 3 4 w))
         \<and> Returns (conn_File 3 4 world_refusing) = Returns ((Some 0, None), w1)"
    by (simp add: w1_def ev_defs)
  have b: "file_Fd (Some 0) w1 = (4, w2)"
    by (simp add: w2_def w1_def ev_defs)
  have c: "SetNonblock 4 True w2 = (Some (Errno 22), w3)"
    by (simp add: w3_def w2_def w1_def ev_defs)
  have l: "calls w2 = [SysDup 3, SysSetNonblock 4 False]"
    by (simp add: w2_def w1_def ev_defs)
  define v1 where "v1 = snd (NewFile 3 world_refusing)"
  define v2 where "v2 = snd (file_Fd (Some 0) v1)"
  define v3 where "v3 = snd (SetNonblock 3 True v2)"
  have a': "NewFile 3 world_refusing = (Some 0, v1)"
    by (simp add: v1_def ev_defs)
  have b': "file_Fd (Some 0) v1 = (3, v2)"
    by (simp add: v2_def v1_def ev_defs)
  have c': "SetNonblock 3 True v2 = (Some (Errno 22), v3)"
    by (simp add: v3_def v2_def v1_def ev_defs)
  have l': "calls v2 = [SysSetNonblock 3 False]"
    by (simp add: v2_def v1_def ev_defs)
  from setnonblock_failure_rolls_back [OF b c, where x = "tcp_conn 3 4"
      and File = "\<lambda>w. Returns (conn_File 3 4 w)" and w = world_refusing and ev = EventRead] a l
    setnonblock_failure_rolls_back [OF b' c', where rawfd = 3 and w = world_refusing
      and ev = EventRead] a' l'
  show ?thesis by (simp add: returned_def)
qed

text \<open>
  C3. An object that does not satisfy the filer contract is refused with the sentinel
  \<^verbatim>\<open>ErrNotFiler\<close> and a nil \<open>Desc\<close> by \<^verbatim>\<open>handle\<close>, \<^verbatim>\<open>Handle\<close> and
  \<^verbatim>\<open>HandleListener\<close>, and the world is left exactly as it was: no file is extracted, no
  descriptor touched, no call made.
\<close>

theorem not_filer_rejected:
  assumes "as_filer x = None"
  shows "handle x ev w = Returns ((None, Some ErrNotFiler), w)
       \<and> Handle x ev w = Returns ((None, Some ErrNotFiler), w)
       \<and> HandleListener x ev w = Returns ((None, Some ErrNotFiler), w)"
  using assms by (simp add: handle_def Handle_def HandleListener_def)

theorem not_filer_rejected_witness:
  "as_filer (Plain ''net.pipe'') = None
   \<and> handle (Plain ''net.pipe'') EventRead world0 = Returns ((None, Some ErrNotFiler), world0)
   \<and> Handle (Plain ''net.pipe'') EventRead world0 = Returns ((None, Some ErrNotFiler), world0)
   \<and> HandleListener (Plain ''net.pipe'') EventRead world0 =
       Returns ((None, Some ErrNotFiler), world0)"
proof -
  have h: "as_filer (Plain ''net.pipe'') = None"
    by (simp add: as_filer_def)
  show ?thesis
    using h not_filer_rejected [OF h, of EventRead world0] by simp
qed

text \<open>
  C2. Whatever entry point built it (\<^verbatim>\<open>NewDesc\<close>, \<^verbatim>\<open>Handle\<close>, \<^verbatim>\<open>HandleListener\<close>
  or one of the shorthands), a \<open>Desc\<close> that is returned comes with a nil error, its
  descriptor number is the one of its file, that descriptor is in non-blocking mode in the
  world returned with it, and the last call made before returning is
  \<^verbatim>\<open>SetNonblock(fd, true)\<close> on it.
\<close>

theorem constructed_desc_is_nonblocking:
  assumes entry: "r \<in> {Returns (NewDesc rawfd ev w), Handle x ev w, HandleListener x ev w,
                    HandleRead x w, HandleReadOnce x w, HandleWrite x w,
                    HandleWriteOnce x w, HandleReadWrite x w}"
      and ok: "r = Returns ((Some d, err), w')"
  shows "err = None
       \<and> 0 \<le> desc d \<and> file_sysfd w' (file d) = desc d
       \<and> fd_nonblocking w' (desc d)
       \<and> calls w' \<noteq> [] \<and> last (calls w') = SysSetNonblock (desc d) True"
proof -
  have "\<exists>f e w0. newDesc f e w0 = ((Some d, err), w')"
  proof -
    from entry ok consider
        (raw) "NewDesc rawfd ev w = ((Some d, err), w')"
      | (gen) e where "Handle x e w = Returns ((Some d, err), w')"
      | (lis) "HandleListener x ev w = Returns ((Some d, err), w')"
      by (auto simp: HandleRead_def HandleReadOnce_def HandleWrite_def
            HandleWriteOnce_def HandleReadWrite_def)
    then show ?thesis
    proof cases
      case raw
      from NewDesc_success [OF raw] show ?thesis by blast
    next
      case gen
      from handle_success [OF Handle_success [OF gen]] show ?thesis by blast
    next
      case lis
      then have "handle x ev w = Returns ((Some d, err), w')"
        by (simp add: HandleListener_def)
      from handle_success [OF this] show ?thesis by blast
    qed
  qed
  then obtain f e w0 where "newDesc f e w0 = ((Some d, err), w')" by blast
  from newDesc_success [OF this] show ?thesis by blast
qed


theorem constructed_desc_is_nonblocking_witness:
  "map_option fst (returned (HandleRead (tcp_conn 3 4) world0)) =
     Some (Some \<lparr>file = Some 0, event = EventRead OR EventEdgeTriggered, desc = 4\<rparr>, None)
   \<and> map_option (\<lambda>r. calls (snd r)) (returned (HandleRead (tcp_conn 3 4) world0)) =
       Some [SysDup 3, SysSetNonblock 4 False, SysSetNonblock 4 True]
   \<and> map_option (\<lambda>r. file_sysfd (snd r) (Some 0)) (returned (HandleRead (tcp_conn 3 4) world0)) =
       Some 4
   \<and> map_option (\<lambda>r. fd_nonblocking (snd r) 4) (returned (HandleRead (tcp_conn 3 4) world0)) =
       Some True"
proof -
  define w' where
    "w' = snd (SetNonblock 4 True (snd (file_Fd (Some 0) (snd (conn_File 3 4 world0)))))"
  have run: "HandleRead (tcp_conn 3 4) world0 =
      Returns
        ((Some \<lparr>file = Some 0, event = EventRead OR EventEdgeTriggered, desc = 4\<rparr>, None), w')"
    by (simp add: w'_def HandleRead_def Handle_def handle_def newDesc_def Fd_def
          NewSyscallError_def ev_defs)
  have log: "calls w' = [SysDup 3, SysSetNonblock 4 False, SysSetNonblock 4 True]"
    by (simp add: w'_def ev_defs)
  have "HandleRead (tcp_conn 3 4) world0 \<in>
      {Returns (NewDesc 3 EventRead world0), Handle (tcp_conn 3 4) EventRead world0,
       HandleListener (tcp_conn 3 4) EventRead world0,
       HandleRead (tcp_conn 3 4) world0, HandleReadOnce (tcp_conn 3 4) world0,
       HandleWrite (tcp_conn 3 4) world0,
       HandleWriteOnce (tcp_conn 3 4) world0,
       HandleReadWrite (tcp_conn 3 4) world0}"
    by simp
  from constructed_desc_is_nonblocking [OF this run] run log show ?thesis
    by (simp add: returned_def)
qed

text \<open>
  C7. When the object is a filer and its \<^verbatim>\<open>File\<close> method returns an error, \<^verbatim>\<open>handle\<close>
  (and so \<^verbatim>\<open>Handle\<close> and \<^verbatim>\<open>HandleListener\<close>) returns a nil \<open>Desc\<close> and that same
  error, in exactly the world the one call of \<^verbatim>\<open>File\<close> left: nothing is called again
  and nothing is closed.
\<close>

theorem extraction_failure_propagated:
  assumes "as_filer x = Some File"
      and "File w = Returns ((f, Some e), w1)"
  shows "handle x ev w = Returns ((None, Some e), w1)
       \<and> Handle x ev w = Returns ((None, Some e), w1)
       \<and> HandleListener x ev w = Returns ((None, Some e), w1)"
  using assms by (simp add: handle_def Handle_def HandleListener_def)

theorem extraction_failure_propagated_witness:
  "handle (tcp_conn 9 4) EventRead world0 =
     Returns ((None, Some (Errno EBADF)), world0\<lparr>calls := [SysDup 9]\<rparr>)
   \<and> Handle (tcp_conn 9 4) EventRead world0 =
     Returns ((None, Some (Errno EBADF)), world0\<lparr>calls := [SysDup 9]\<rparr>)
   \<and> HandleListener (tcp_conn 9 4) EventRead world0 =
     Returns ((None, Some (Errno EBADF)), world0\<lparr>calls := [SysDup 9]\<rparr>)"
proof -
  have a: "as_filer (tcp_conn 9 4) = Some (\<lambda>w. Returns (conn_File 9 4 w))"
    by (simp add: as_filer_def tcp_conn_def)
  have b: "Returns (conn_File 9 4 world0) =
      Returns ((None, Some (Errno EBADF)), world0\<lparr>calls := [SysDup 9]\<rparr>)"
    by (simp add: conn_File_def world0_def Let_def)
  from extraction_failure_propagated [OF a b, of EventRead] show ?thesis .
qed

text \<open>
  C10. When \<^verbatim>\<open>NewDesc\<close> returns an error, it returns no \<open>Desc\<close>, the error is the
  wrapped failure of \<^verbatim>\<open>SetNonblock\<close>, the \<^verbatim>\<open>os.File\<close> it made around the descriptor
  of the caller is closed, and that descriptor is not open any more: when the number is a
  valid one, closing it is the last call made.
\<close>

theorem NewDesc_failure_closes_descriptor:
  assumes "NewDesc rawfd ev w = ((d, Some e), w')"
  shows "d = None
       \<and> (\<exists>en. e = SyscallError ''setnonblock'' en)
       \<and> file_closed w' (fst (NewFile rawfd w))
       \<and> \<not> fd_open w' (sint rawfd)
       \<and> calls w' \<noteq> []
       \<and> last (calls w') =
           (if sint rawfd < 0 then SysSetNonblock (-1) True else SysClose (sint rawfd))"
proof -
  obtain f w1 where nf: "NewFile rawfd w = (f, w1)" by (cases "NewFile rawfd w")
  obtain d0 e0 w2 where nd: "newDesc f ev w1 = ((d0, e0), w2)"
    by (cases "newDesc f ev w1") auto
  from assms nf nd have e0: "e0 = Some e" and d: "d = None" and w': "w' = snd (file_Close f w2)"
    by (auto simp: NewDesc_def split: if_splits)
  note fail = newDesc_failure [OF nd [unfolded e0]]
  have s1: "file_sysfd w1 f = (if sint rawfd < 0 then -1 else sint rawfd)"
    using nf by (auto simp: NewFile_def Let_def file_sysfd_def split: if_splits)
  from fail have "files w2 = files w1" by simp
  then have "file_sysfd w2 f = file_sysfd w1 f" by (rule file_sysfd_files)
  with s1 have s2: "file_sysfd w2 f = (if sint rawfd < 0 then -1 else sint rawfd)" by simp
  have neg: "\<not> fd_open w' (sint rawfd)"
  proof (cases "sint rawfd < 0")
    case True
    then show ?thesis by (simp add: fd_open_def)
  next
    case False
    with s2 file_Close_effect [of f w2] w' show ?thesis by simp
  qed
  have cl: "calls w' = calls w2 @ (if file_sysfd w2 f < 0 then [] else [SysClose (file_sysfd w2 f)])"
    using file_Close_effect [of f w2] w' by blast
  have lst: "calls w' \<noteq> [] \<and> last (calls w') =
           (if sint rawfd < 0 then SysSetNonblock (-1) True else SysClose (sint rawfd))"
  proof (cases "sint rawfd < 0")
    case True
    with s1 s2 have "file_sysfd w1 f = -1" "file_sysfd w2 f = -1" by simp_all
    with fail cl have "calls w' = calls w2" "calls w2 \<noteq> []"
      "last (calls w2) = SysSetNonblock (-1) True" by simp_all
    with True show ?thesis by simp
  next
    case False
    with s2 have "file_sysfd w2 f = sint rawfd" by simp
    with False cl have "calls w' = calls w2 @ [SysClose (sint rawfd)]" by simp
    with False show ?thesis by simp
  qed
  have fc: "file_closed w' (fst (NewFile rawfd w))"
    using file_Close_effect [of f w2] w' nf by simp
  from d fail neg lst fc show ?thesis by blast
qed

theorem NewDesc_failure_closes_descriptor_witness:
  "fst (NewDesc 3 EventRead world_refusing) =
     (None, Some (SyscallError ''setnonblock'' (Errno 22)))
   \<and> fd_open world_refusing 3
   \<and> \<not> fd_open (snd (NewDesc 3 EventRead world_refusing)) 3
   \<and> file_closed (snd (NewDesc 3 EventRead world_refusing)) (Some 0)
   \<and> last (calls (snd (NewDesc 3 EventRead world_refusing))) = SysClose 3"
proof -
  define w' where "w' = snd (NewDesc 3 EventRead world_refusing)"
  have run: "NewDesc 3 EventRead world_refusing =
     ((None, Some (SyscallError ''setnonblock'' (Errno 22))), w')"
    by (simp add: w'_def NewDesc_def newDesc_def Fd_def NewSyscallError_def ev_defs)
  have nf: "fst (NewFile 3 world_refusing) = Some 0"
    by (simp add: ev_defs)
  have op: "fd_open world_refusing 3"
    by (simp add: ev_defs)
  from NewDesc_failure_closes_descriptor [OF run] run nf op show ?thesis
    unfolding w'_def [symmetric] by simp
qed

text \<open>
  C4. The shorthand family as the source has it: five functions of a connection,
  \<^verbatim>\<open>HandleRead\<close>, \<^verbatim>\<open>HandleReadOnce\<close>, \<^verbatim>\<open>HandleWrite\<close>, \<^verbatim>\<open>HandleWriteOnce\<close> and
  \<^verbatim>\<open>HandleReadWrite\<close>, each equal to \<^verbatim>\<open>Handle\<close> on the same connection with its
  composed interest. The five interests are pairwise different, and none of them is
  read and write with one-shot delivery.
\<close>

theorem shorthand_family_five:
  "shorthand_family =
     [HandleRead, HandleReadOnce, HandleWrite, HandleWriteOnce, HandleReadWrite]
   \<and> length shorthand_family = 5
   \<and> HandleRead conn w = Handle conn (EventRead OR EventEdgeTriggered) w
   \<and> HandleReadOnce conn w = Handle conn (EventRead OR EventOneShot) w
   \<and> HandleWrite conn w = Handle conn (EventWrite OR EventEdgeTriggered) w
   \<and> HandleWriteOnce conn w = Handle conn (EventWrite OR EventOneShot) w
   \<and> HandleReadWrite conn w = Handle conn (EventRead OR EventWrite OR EventEdgeTriggered) w
   \<and> distinct [EventRead OR EventEdgeTriggered, EventRead OR EventOneShot,
                EventWrite OR EventEdgeTriggered, EventWrite OR EventOneShot,
                EventRead OR EventWrite OR EventEdgeTriggered,
                EventRead OR EventWrite OR EventOneShot]"
  by (simp add: shorthand_family_def HandleRead_def HandleReadOnce_def HandleWrite_def
        HandleWriteOnce_def HandleReadWrite_def EventRead_def EventWrite_def
        EventOneShot_def EventEdgeTriggered_def)

text \<open>
  C4, as stated, fails: on a connection the family builds five \<open>Desc\<close>s with five
  different interests, so it does not consist of four shorthands, and none of them has the
  interest \<^verbatim>\<open>EventRead|EventWrite|EventOneShot\<close>, so the product of read, write and
  read+write with edge-triggered and one-shot delivery is not covered.
\<close>

theorem shorthand_family_counterexample:
  "length shorthand_family \<noteq> 4
   \<and> map (\<lambda>h. map_option event (returned_desc (h (tcp_conn 3 4) world0))) shorthand_family =
       [Some (EventRead OR EventEdgeTriggered), Some (EventRead OR EventOneShot),
        Some (EventWrite OR EventEdgeTriggered), Some (EventWrite OR EventOneShot),
        Some (EventRead OR EventWrite OR EventEdgeTriggered)]
   \<and> distinct (map (\<lambda>h. map_option event (returned_desc (h (tcp_conn 3 4) world0)))
         shorthand_family)
   \<and> map_option event
        (returned_desc (Handle (tcp_conn 3 4) (EventRead OR EventWrite OR EventOneShot) world0))
       \<notin> set (map (\<lambda>h. map_option event (returned_desc (h (tcp_conn 3 4) world0)))
                shorthand_family)"
proof -
  have run: "returned_desc (Handle (tcp_conn 3 4) ev world0) =
      Some \<lparr>file = Some 0, event = ev, desc = 4\<rparr>" for ev
    by (simp add: Handle_def handle_def newDesc_def Fd_def NewSyscallError_def ev_defs)
  show ?thesis
    by (simp add: shorthand_family_def HandleRead_def HandleReadOnce_def HandleWrite_def
        HandleWriteOnce_def HandleReadWrite_def run EventRead_def EventWrite_def
        EventOneShot_def EventEdgeTriggered_def)
qed

text \<open>
  C5. On a platform without a poller, \<^verbatim>\<open>New\<close> returns, for every configuration, a nil
  instance and the error made by \<^verbatim>\<open>fmt.Errorf\<close> whose message is
  \<^verbatim>\<open>poller is not supported on this operating system\<close>; the message starts with
  \<^verbatim>\<open>poller\<close> and contains \<^verbatim>\<open>not supported on this operating system\<close>.
\<close>

theorem New_unsupported:
  "New cfg = (None, Some (ErrorString ''poller is not supported on this operating system''))
   \<and> fst (New cfg) = None
   \<and> snd (New cfg) \<noteq> None
   \<and> map_option message (snd (New cfg)) =
       Some (Some ''poller is not supported on this operating system'')
   \<and> prefix ''poller'' ''poller is not supported on this operating system''
   \<and> sublist ''not supported on this operating system''
        ''poller is not supported on this operating system''"
proof -
  have "''poller is not supported on this operating system'' =
      ''poller is '' @ ''not supported on this operating system'' @ []"
    by simp
  then have "sublist ''not supported on this operating system''
      ''poller is not supported on this operating system''"
    unfolding sublist_def by blast
  then show ?thesis
    by (simp add: New_def Errorf_def message_def)
qed

text \<open>
  C6. Calling \<^verbatim>\<open>Fd\<close> again after a call of \<^verbatim>\<open>Fd\<close>, any number of times, returns the
  same number and changes neither the \<open>Desc\<close> nor the world. The first call returns the
  cached number, leaving the world alone, when the cache is set; when the cache is
  \<open>-1\<close> it asks the file, and stores the answer in the cache.
\<close>

theorem Fd_stable:
  assumes "Fd h w = (v, h', w')"
  shows "Fd h' w' = (v, h', w')
       \<and> ((\<lambda>(v, h, w). Fd h w) ^^ k) (v, h', w') = (v, h', w')
       \<and> h' = h\<lparr>desc := v\<rparr>
       \<and> v = (if desc h = -1 then fst (file_Fd (file h) w) else desc h)
       \<and> w' = (if desc h = -1 then snd (file_Fd (file h) w) else w)"
proof -
  have again: "Fd h' w' = (v, h', w')"
    using assms by (rule Fd_again)
  have iter: "((\<lambda>(v, h, w). Fd h w) ^^ k) (v, h', w') = (v, h', w')"
    by (induction k) (simp_all add: again)
  have first: "h' = h\<lparr>desc := v\<rparr>
       \<and> v = (if desc h = -1 then fst (file_Fd (file h) w) else desc h)
       \<and> w' = (if desc h = -1 then snd (file_Fd (file h) w) else w)"
    using assms by (auto simp: Fd_def split: prod.splits if_splits)
  from again iter first show ?thesis by blast
qed

theorem Fd_stable_witness:
  "fst (Fd \<lparr>file = Some 0, event = EventRead, desc = -1\<rparr> (snd (conn_File 3 4 world0))) = 4
   \<and> fst (snd (Fd \<lparr>file = Some 0, event = EventRead, desc = -1\<rparr> (snd (conn_File 3 4 world0)))) =
       \<lparr>file = Some 0, event = EventRead, desc = 4\<rparr>
   \<and> Fd \<lparr>file = Some 0, event = EventRead, desc = 4\<rparr>
        (snd (snd (Fd \<lparr>file = Some 0, event = EventRead, desc = -1\<rparr> (snd (conn_File 3 4 world0))))) =
     (4, \<lparr>file = Some 0, event = EventRead, desc = 4\<rparr>,
      snd (snd (Fd \<lparr>file = Some 0, event = EventRead, desc = -1\<rparr> (snd (conn_File 3 4 world0)))))"
proof -
  define w1 where "w1 = snd (conn_File 3 4 world0)"
  define w' where "w' = snd (snd (Fd \<lparr>file = Some 0, event = EventRead, desc = -1\<rparr> w1))"
  have run: "Fd \<lparr>file = Some 0, event = EventRead, desc = -1\<rparr> w1 =
      (4, \<lparr>file = Some 0, event = EventRead, desc = 4\<rparr>, w')"
    by (simp add: w'_def w1_def Fd_def ev_defs)
  have again: "Fd \<lparr>file = Some 0, event = EventRead, desc = 4\<rparr> w' =
      (4, \<lparr>file = Some 0, event = EventRead, desc = 4\<rparr>, w')"
    using Fd_stable [OF run, of 1] by blast
  have first: "fst (Fd \<lparr>file = Some 0, event = EventRead, desc = -1\<rparr> w1) = 4"
    "fst (snd (Fd \<lparr>file = Some 0, event = EventRead, desc = -1\<rparr> w1)) =
       \<lparr>file = Some 0, event = EventRead, desc = 4\<rparr>"
    using run by simp_all
  from first again show ?thesis
    unfolding w'_def w1_def by blast
qed

text \<open>
  C8. \<^verbatim>\<open>Close\<close> leaves the \<open>Desc\<close> as it is; \<^verbatim>\<open>Fd\<close> leaves the fields \<open>file\<close> and
  \<open>event\<close> as they are, and the \<open>Desc\<close> it leaves differs from the one it was given at
  most in the cached number \<open>desc\<close>, which holds the number returned.
\<close>

theorem Desc_fields_frame:
  "fst (snd (Close h w)) = h
   \<and> file (fst (snd (Fd h w))) = file h
   \<and> event (fst (snd (Fd h w))) = event h
   \<and> fst (snd (Fd h w)) = h\<lparr>desc := fst (Fd h w)\<rparr>"
  by (simp add: Close_def Fd_def split: prod.splits)




end
